theory Spec2Isabelle
  imports Complex_Main "HOL-Library.Extended_Nat"
begin

section \<open>Tensors and the host framework\<close>

text \<open>
  The two layers of \<^verbatim>\<open>spektral.layers.convolutional\<close> are embedded over an arbitrary
  numeric element type. A rank-2 tensor of shape \<open>(rows, width)\<close> is the list of its rows;
  a rank-1 tensor is a list. Every raise of the program or of the host framework is an
  element of \<open>error\<close>, and a fallible computation returns \<open>error + 'r\<close> with \<open>Inl\<close> the
  error.
\<close>

type_synonym 'a tensor = "'a list list"

datatype error =
    ConfigurationError
  | ShapeMismatchError
  | IndexOutOfRangeError
  | InvalidArgumentError
  | ValueError
  | TypeError
  | AttributeError
  | AssertionError

text \<open>
  A sparse matrix of the host framework: one index pair \<open>(row, column)\<close> and one value per
  stored entry, in entry order, and the dense shape (\<^verbatim>\<open>a.indices\<close>, \<^verbatim>\<open>a.values\<close>,
  \<^verbatim>\<open>a.dense_shape\<close>).
\<close>

record 'a SparseTensor =
  sp_indices :: "(nat \<times> nat) list"
  sp_values :: "'a list"
  dense_shape :: "nat \<times> nat"

text \<open>
  The keyword arguments every \<^verbatim>\<open>Dense\<close> receives from the layers. The initialisers give
  the entry of the kernel at \<open>(input index, unit index)\<close> and of the bias at a unit index;
  regularisers and constraints are named and take no part in the forward computation.
\<close>

record 'a layer_kwargs =
  kernel_initializer :: "nat \<Rightarrow> nat \<Rightarrow> 'a"
  bias_initializer :: "nat \<Rightarrow> 'a"
  kernel_regularizer :: "string option"
  bias_regularizer :: "string option"
  activity_regularizer :: "string option"
  kernel_constraint :: "string option"
  bias_constraint :: "string option"
  dtype :: "string option"

text \<open>
  \<^verbatim>\<open>tensorflow.keras.layers.Dense\<close>: \<open>units\<close> output features, an activation applied to
  every output row, an optional bias. The activation is a function on rows, so that
  row-wise activations such as softmax are covered.
\<close>

record 'a Dense =
  units :: int
  dense_activation :: "'a list \<Rightarrow> 'a list"
  dense_use_bias :: bool
  dense_kwargs :: "'a layer_kwargs"

text \<open>
  The constructor \<^verbatim>\<open>Dense(units, activation=None, use_bias=True, **kwargs)\<close>. An omitted
  \<^verbatim>\<open>use_bias\<close> is \<open>None\<close> here and takes the default \<open>True\<close>. Which unit counts the host
  framework rejects at construction depends on its version, so its check is the parameter
  \<open>units_valid\<close>. A rejection is an error raised while the layer is constructed, which is
  what the specification names \<open>ConfigurationError\<close> (the \<^verbatim>\<open>ValueError\<close> of Python).
\<close>

definition Dense_init ::
  "(int \<Rightarrow> bool) \<Rightarrow> int \<Rightarrow> ('a list \<Rightarrow> 'a list) \<Rightarrow> bool option \<Rightarrow> 'a layer_kwargs
     \<Rightarrow> error + 'a Dense" where
  "Dense_init units_valid n act ub kw =
     (if units_valid n
      then Inr \<lparr>units = n, dense_activation = act,
                dense_use_bias = (case ub of None \<Rightarrow> True | Some b \<Rightarrow> b),
                dense_kwargs = kw\<rparr>
      else Inl ConfigurationError)"

text \<open>
  Applying a \<^verbatim>\<open>Dense\<close> to one row: unit \<open>j\<close> is the dot product of the row with column
  \<open>j\<close> of the kernel, plus the bias when the layer has one; then the activation. A kernel
  with a negative number of columns cannot be allocated, so such a layer raises.
\<close>

definition dense_unit :: "'a::semiring_0 Dense \<Rightarrow> 'a list \<Rightarrow> nat \<Rightarrow> 'a" where
  "dense_unit d r j =
     (\<Sum>i\<leftarrow>[0..<length r]. r ! i * kernel_initializer (dense_kwargs d) i j)
     + (if dense_use_bias d then bias_initializer (dense_kwargs d) j else 0)"

definition dense_row :: "'a::semiring_0 Dense \<Rightarrow> 'a list \<Rightarrow> 'a list" where
  "dense_row d r = dense_activation d (map (dense_unit d r) [0..<nat (units d)])"

definition Dense_call :: "'a::semiring_0 Dense \<Rightarrow> 'a tensor \<Rightarrow> error + 'a tensor" where
  "Dense_call d t = (if units d < 0 then Inl ValueError else Inr (map (dense_row d) t))"

text \<open>
  \<^verbatim>\<open>K.concatenate\<close> joins tensors along the last axis: row \<open>n\<close> of the result is the rows
  \<open>n\<close> of the arguments, one after the other. The arguments must agree on the number of
  rows, and there must be at least one.
\<close>

fun concatenate :: "'a tensor list \<Rightarrow> error + 'a tensor" where
  "concatenate [] = Inl ValueError"
| "concatenate (t # ts) =
     (if list_all (\<lambda>u. length u = length t) ts
      then Inr (foldl (\<lambda>acc u. map2 (@) acc u) t ts)
      else Inl ShapeMismatchError)"

section \<open>The message-passing base\<close>

text \<open>
  Modelled from the spec: the module \<^verbatim>\<open>message_passing.py\<close> with the class
  \<^verbatim>\<open>MessagePassing\<close> is absent. The layer object keeps the aggregation mode, the
  activation, the bias setting and the parameter configuration it was constructed with.
\<close>

record 'a MessagePassing =
  aggregate :: string
  activation :: "'a list \<Rightarrow> 'a list"
  use_bias :: bool
  kwargs :: "'a layer_kwargs"

text \<open>
  Modelled from the spec: the constructor of the absent class \<^verbatim>\<open>MessagePassing\<close>
  validates that the aggregation mode is one of \<open>sum\<close>, \<open>mean\<close>, \<open>max\<close> and fails with
  \<open>ConfigurationError\<close> otherwise.
\<close>

definition MessagePassing_init ::
  "string \<Rightarrow> ('a list \<Rightarrow> 'a list) \<Rightarrow> bool \<Rightarrow> 'a layer_kwargs \<Rightarrow> error + 'a MessagePassing" where
  "MessagePassing_init agg act ub kw =
     (if agg \<in> {''sum'', ''mean'', ''max''}
      then Inr \<lparr>aggregate = agg, activation = act, use_bias = ub, kwargs = kw\<rparr>
      else Inl ConfigurationError)"

text \<open>
  Modelled from the spec: an edge of the adjacency, with its source and its target index.
  A \<^verbatim>\<open>propagate\<close> call of the absent base class unpacks the list of edges from the
  adjacency and keeps it for \<^verbatim>\<open>get_sources\<close> and \<^verbatim>\<open>get_targets\<close>.
\<close>

record edge =
  source :: nat
  target :: nat

text \<open>
  Modelled from the spec: the source indices of the current edge list, in edge order
  (the attribute of the absent base class).
\<close>

definition index_sources :: "edge list \<Rightarrow> nat list" where
  "index_sources es = map source es"

text \<open>
  Modelled from the spec: the target indices of the current edge list, in edge order
  (the attribute of the absent base class).
\<close>

definition index_targets :: "edge list \<Rightarrow> nat list" where
  "index_targets es = map target es"

text \<open>
  Modelled from the spec: the gather of the absent base class reads the rows of the node
  features at a list of indices, one row per index, in order; an index that is not below
  the number of nodes is rejected with \<open>IndexOutOfRangeError\<close> before anything is read.
\<close>

definition gather :: "'a tensor \<Rightarrow> nat list \<Rightarrow> error + 'a tensor" where
  "gather x idx =
     (if list_all (\<lambda>i. i < length x) idx then Inr (map (\<lambda>i. x ! i) idx)
      else Inl IndexOutOfRangeError)"

text \<open>
  Modelled from the spec: \<^verbatim>\<open>get_sources\<close> of the absent base class returns the gathered
  feature vectors at the source indices, one row per edge, in edge order.
\<close>

definition get_sources :: "edge list \<Rightarrow> 'a tensor \<Rightarrow> error + 'a tensor" where
  "get_sources es x = gather x (index_sources es)"

text \<open>
  Modelled from the spec: \<^verbatim>\<open>get_targets\<close> of the absent base class returns the gathered
  feature vectors at the target indices, one row per edge, in edge order.
\<close>

definition get_targets :: "edge list \<Rightarrow> 'a tensor \<Rightarrow> error + 'a tensor" where
  "get_targets es x = gather x (index_targets es)"

section \<open>TAGConv\<close>

record 'a TAGConv = "'a MessagePassing" +
  channels :: int
  K :: int
  linear :: "'a Dense"

text \<open>
  \<^verbatim>\<open>TAGConv.__init__\<close>: the base constructor runs first, then the two fields are stored as
  they come, then the projection \<^verbatim>\<open>Dense(channels, activation=activation,
  use_bias=use_bias, ...)\<close> is constructed; it is not given a \<^verbatim>\<open>dtype\<close>.
\<close>

definition TAGConv_init ::
  "(int \<Rightarrow> bool) \<Rightarrow> int \<Rightarrow> int \<Rightarrow> string \<Rightarrow> ('a list \<Rightarrow> 'a list) \<Rightarrow> bool \<Rightarrow> 'a layer_kwargs
     \<Rightarrow> error + 'a TAGConv" where
  "TAGConv_init units_valid chs k agg act ub kw =
     (case MessagePassing_init agg act ub kw of
        Inl e \<Rightarrow> Inl e
      | Inr base \<Rightarrow>
          (case Dense_init units_valid chs act (Some ub) (kw\<lparr>dtype := None\<rparr>) of
             Inl e \<Rightarrow> Inl e
           | Inr d \<Rightarrow>
               Inr \<lparr>aggregate = aggregate base, activation = activation base,
                    use_bias = use_bias base, kwargs = kwargs base,
                    channels = chs, K = k, linear = d\<rparr>))"

text \<open>
  A computation on the layer object: it takes the state, returns the state it leaves and
  either a result or the error it raised.
\<close>

type_synonym ('s, 'r) comp = "'s \<Rightarrow> (error + 'r) \<times> 's"

text \<open>
  The loop \<^verbatim>\<open>for _ in range(self.K): output.append(body())\<close>, with the number of
  iterations left; an error of the body leaves the loop.
\<close>

fun hop_loop :: "nat \<Rightarrow> ('s, 'r) comp \<Rightarrow> 'r list \<Rightarrow> ('s, 'r list) comp" where
  "hop_loop 0 body output s = (Inr output, s)"
| "hop_loop (Suc n) body output s =
     (case body s of
        (Inl e, s') \<Rightarrow> (Inl e, s')
      | (Inr r, s') \<Rightarrow> hop_loop n body (output @ [r]) s')"

text \<open>
  \<^verbatim>\<open>TAGConv.call\<close> up to the end of its loop: the list \<^verbatim>\<open>output\<close>. The method
  \<^verbatim>\<open>propagate\<close> of the absent base class is the parameter \<open>propagate\<close>, a computation
  on the layer state; \<^verbatim>\<open>get_inputs\<close> unpacks the triple of the inputs. \<^verbatim>\<open>range(K)\<close>
  is empty for a \<open>K\<close> that is not positive.
\<close>

definition TAGConv_output ::
  "'a TAGConv \<Rightarrow> ('a tensor \<Rightarrow> 'a SparseTensor \<Rightarrow> 'a list \<Rightarrow> ('s, 'a tensor) comp)
     \<Rightarrow> 'a tensor \<times> 'a SparseTensor \<times> 'e option \<Rightarrow> ('s, 'a tensor list) comp" where
  "TAGConv_output self propagate inputs s =
     (case inputs of (x, a, _) \<Rightarrow>
        (let edge_weight = sp_values a
         in hop_loop (nat (K self)) (propagate x a edge_weight) [x] s))"

text \<open>\<^verbatim>\<open>TAGConv.call\<close>: the list is concatenated and projected by \<^verbatim>\<open>self.linear\<close>.\<close>

definition TAGConv_call ::
  "'a::semiring_0 TAGConv
     \<Rightarrow> ('a tensor \<Rightarrow> 'a SparseTensor \<Rightarrow> 'a list \<Rightarrow> ('s, 'a tensor) comp)
     \<Rightarrow> 'a tensor \<times> 'a SparseTensor \<times> 'e option \<Rightarrow> ('s, 'a tensor) comp" where
  "TAGConv_call self propagate inputs s =
     (case TAGConv_output self propagate inputs s of
        (Inl e, s') \<Rightarrow> (Inl e, s')
      | (Inr output, s') \<Rightarrow>
          (case concatenate output of
             Inl e \<Rightarrow> (Inl e, s')
           | Inr output' \<Rightarrow> (Dense_call (linear self) output', s')))"

text \<open>
  \<^verbatim>\<open>edge_weight[:, None] * x_j\<close>: a column of \<open>W\<close> scalars times a tensor of \<open>E\<close> rows,
  with the broadcasting of the host framework: the shapes agree, or one of the two has a
  single row, which is then repeated.
\<close>

definition scale_rows :: "'a::times list \<Rightarrow> 'a tensor \<Rightarrow> error + 'a tensor" where
  "scale_rows w t =
     (if length w = length t then Inr (map2 (\<lambda>c r. map ((*) c) r) w t)
      else if length w = 1 then Inr (map (\<lambda>r. map ((*) (hd w)) r) t)
      else if length t = 1 then Inr (map (\<lambda>c. map ((*) c) (hd t)) w)
      else Inl InvalidArgumentError)"

text \<open>
  \<^verbatim>\<open>TAGConv.message\<close>; the default \<^verbatim>\<open>edge_weight=None\<close> cannot be subscripted.
\<close>

definition TAGConv_message :: "edge list \<Rightarrow> 'a::times tensor \<Rightarrow> 'a list option \<Rightarrow> error + 'a tensor" where
  "TAGConv_message es x edge_weight =
     (case get_sources es x of
        Inl e \<Rightarrow> Inl e
      | Inr x_j \<Rightarrow>
          (case edge_weight of
             None \<Rightarrow> Inl TypeError
           | Some w \<Rightarrow> scale_rows w x_j))"

text \<open>\<^verbatim>\<open>TAGConv.config\<close>: a dictionary with the single key \<^verbatim>\<open>"channels"\<close>.\<close>

definition TAGConv_config :: "'a TAGConv \<Rightarrow> (string \<rightharpoonup> int)" where
  "TAGConv_config self = [''channels'' \<mapsto> channels self]"

text \<open>
  Modelled from the spec: the degree of node \<open>i\<close>, the sum of row \<open>i\<close> of the adjacency;
  it is the diagonal entry of \<open>D\<close> in the normalisation of the absent module
  \<^verbatim>\<open>spektral.utils\<close>.
\<close>

definition degree :: "real SparseTensor \<Rightarrow> nat \<Rightarrow> real" where
  "degree a i = (\<Sum>(ij, v)\<leftarrow>zip (sp_indices a) (sp_values a). if fst ij = i then v else 0)"

text \<open>
  Modelled from the spec: \<^verbatim>\<open>normalized_adjacency\<close> of the absent module
  \<^verbatim>\<open>spektral.utils\<close> is the symmetric degree normalisation \<^verbatim>\<open>D^-1/2 A D^-1/2\<close>: the
  entry at \<open>(i, j)\<close> is scaled by the inverse square roots of the degrees of \<open>i\<close> and of
  \<open>j\<close>. The inverse of zero is zero, so a node of degree zero scales by zero.
\<close>

definition normalized_adjacency :: "real SparseTensor \<Rightarrow> real SparseTensor" where
  "normalized_adjacency a =
     a\<lparr>sp_values :=
         map2 (\<lambda>ij v. inverse (sqrt (degree a (fst ij))) * v * inverse (sqrt (degree a (snd ij))))
           (sp_indices a) (sp_values a)\<rparr>"

text \<open>\<^verbatim>\<open>TAGConv.preprocess\<close>, a static method.\<close>

definition TAGConv_preprocess :: "real SparseTensor \<Rightarrow> real SparseTensor" where
  "TAGConv_preprocess a = normalized_adjacency a"

section \<open>EdgeConv\<close>

text \<open>
  The layer object of \<^verbatim>\<open>EdgeConv\<close>. Its field \<^verbatim>\<open>channels\<close> is \<open>ec_channels\<close> here, the
  name \<open>channels\<close> being the field of \<open>TAGConv\<close>. The attribute \<^verbatim>\<open>mlp\<close> exists only
  once \<^verbatim>\<open>build\<close> has run; it is the list of the layers of the \<^verbatim>\<open>Sequential\<close>.
\<close>

record 'a EdgeConv = "'a MessagePassing" +
  ec_channels :: int
  mlp_hidden :: "int list"
  mlp_activation :: "'a list \<Rightarrow> 'a list"
  mlp :: "'a Dense list option"
  built :: bool

text \<open>
  \<^verbatim>\<open>EdgeConv.__init__\<close>: \<^verbatim>\<open>mlp_hidden if mlp_hidden else []\<close> turns \<^verbatim>\<open>None\<close> and the
  empty list into the empty list. The lookup \<^verbatim>\<open>activations.get\<close> of the host framework
  is taken as done: \<open>mlp_act\<close> is the activation it returns.
\<close>

definition EdgeConv_init ::
  "int \<Rightarrow> int list option \<Rightarrow> ('a list \<Rightarrow> 'a list) \<Rightarrow> string \<Rightarrow> ('a list \<Rightarrow> 'a list) \<Rightarrow> bool
     \<Rightarrow> 'a layer_kwargs \<Rightarrow> error + 'a EdgeConv" where
  "EdgeConv_init chs hidden mlp_act agg act ub kw =
     (case MessagePassing_init agg act ub kw of
        Inl e \<Rightarrow> Inl e
      | Inr base \<Rightarrow>
          Inr \<lparr>aggregate = aggregate base, activation = activation base,
               use_bias = use_bias base, kwargs = kwargs base,
               ec_channels = chs,
               mlp_hidden = (case hidden of None \<Rightarrow> [] | Some h \<Rightarrow> h),
               mlp_activation = mlp_act, mlp = None, built = False\<rparr>)"

text \<open>The list comprehension of constructor calls: the first one that raises ends it.\<close>

fun dense_layers ::
  "(int \<Rightarrow> bool) \<Rightarrow> ('a list \<Rightarrow> 'a list) \<Rightarrow> 'a layer_kwargs \<Rightarrow> int list \<Rightarrow> error + 'a Dense list" where
  "dense_layers units_valid act kw [] = Inr []"
| "dense_layers units_valid act kw (c # cs) =
     (case Dense_init units_valid c act None kw of
        Inl e \<Rightarrow> Inl e
      | Inr d \<Rightarrow>
          (case dense_layers units_valid act kw cs of
             Inl e \<Rightarrow> Inl e
           | Inr ds \<Rightarrow> Inr (d # ds)))"

text \<open>
  \<^verbatim>\<open>EdgeConv.build\<close>. The dictionary \<^verbatim>\<open>layer_kwargs\<close> has the initialisers, the
  regularisers and constraints of kernel and bias and the \<^verbatim>\<open>dtype\<close>, and no activity
  regulariser. The hidden layers are constructed with two positional arguments and
  \<^verbatim>\<open>layer_kwargs\<close>; the last layer is given \<^verbatim>\<open>use_bias=self.use_bias\<close> as well.
\<close>

definition EdgeConv_build ::
  "(int \<Rightarrow> bool) \<Rightarrow> 'a EdgeConv \<Rightarrow> nat list list \<Rightarrow> error + 'a EdgeConv" where
  "EdgeConv_build units_valid self input_shape =
     (if \<not> 2 \<le> length input_shape then Inl AssertionError
      else
        (let layer_kwargs = (kwargs self)\<lparr>activity_regularizer := None\<rparr>
         in case dense_layers units_valid (mlp_activation self) layer_kwargs (mlp_hidden self) of
              Inl e \<Rightarrow> Inl e
            | Inr hs \<Rightarrow>
                (case Dense_init units_valid (ec_channels self) (activation self)
                        (Some (use_bias self)) layer_kwargs of
                   Inl e \<Rightarrow> Inl e
                 | Inr d \<Rightarrow> Inr (self\<lparr>mlp := Some (hs @ [d]), built := True\<rparr>))))"

text \<open>Calling a \<^verbatim>\<open>Sequential\<close>: its layers are applied one after the other.\<close>

fun Sequential_call :: "'a::semiring_0 Dense list \<Rightarrow> 'a tensor \<Rightarrow> error + 'a tensor" where
  "Sequential_call [] t = Inr t"
| "Sequential_call (d # ds) t =
     (case Dense_call d t of
        Inl e \<Rightarrow> Inl e
      | Inr t' \<Rightarrow> Sequential_call ds t')"

text \<open>The difference \<^verbatim>\<open>x_j - x_i\<close> of two tensors of one shape, entry by entry.\<close>

definition tensor_sub :: "'a::minus tensor \<Rightarrow> 'a tensor \<Rightarrow> 'a tensor" where
  "tensor_sub u v = map2 (\<lambda>r r'. map2 (-) r r') u v"

text \<open>\<^verbatim>\<open>EdgeConv.message\<close>.\<close>

definition EdgeConv_message ::
  "'a::{semiring_0,minus} EdgeConv \<Rightarrow> edge list \<Rightarrow> 'a tensor \<Rightarrow> error + 'a tensor" where
  "EdgeConv_message self es x =
     (case get_targets es x of
        Inl e \<Rightarrow> Inl e
      | Inr x_i \<Rightarrow>
          (case get_sources es x of
             Inl e \<Rightarrow> Inl e
           | Inr x_j \<Rightarrow>
               (case mlp self of
                  None \<Rightarrow> Inl AttributeError
                | Some layers \<Rightarrow>
                    (case concatenate [x_i, tensor_sub x_j x_i] of
                       Inl e \<Rightarrow> Inl e
                     | Inr c \<Rightarrow> Sequential_call layers c))))"

section \<open>Definitions that follow the specification\<close>

text \<open>
  Performing \<open>n\<close> calls of a computation one after the other and collecting the results in
  call order; the first error ends the sequence.
\<close>

fun propagate_times :: "nat \<Rightarrow> ('s, 'r) comp \<Rightarrow> ('s, 'r list) comp" where
  "propagate_times 0 f s = (Inr [], s)"
| "propagate_times (Suc n) f s =
     (case f s of
        (Inl e, s') \<Rightarrow> (Inl e, s')
      | (Inr r, s') \<Rightarrow>
          (case propagate_times n f s' of
             (Inl e, s'') \<Rightarrow> (Inl e, s'')
           | (Inr rs, s'') \<Rightarrow> (Inr (r # rs), s'')))"

text \<open>
  \<^verbatim>\<open>TAGConv.call\<close> as the specification words it: perform \<open>K\<close> calls of
  \<^verbatim>\<open>propagate(x, a, edge_weight=edge_weight)\<close> on the original features, put the input
  features in front of the \<open>K\<close> results, concatenate along the feature axis and return the
  projection of the concatenation.
\<close>

definition TAGConv_call_spec ::
  "'a::semiring_0 TAGConv
     \<Rightarrow> ('a tensor \<Rightarrow> 'a SparseTensor \<Rightarrow> 'a list \<Rightarrow> ('s, 'a tensor) comp)
     \<Rightarrow> 'a tensor \<Rightarrow> 'a SparseTensor \<Rightarrow> ('s, 'a tensor) comp" where
  "TAGConv_call_spec self propagate x a s =
     (case propagate_times (nat (K self)) (propagate x a (sp_values a)) s of
        (Inl e, s') \<Rightarrow> (Inl e, s')
      | (Inr blocks, s') \<Rightarrow>
          (case concatenate (x # blocks) of
             Inl e \<Rightarrow> (Inl e, s')
           | Inr c \<Rightarrow> (Dense_call (linear self) c, s')))"

text \<open>
  An instrumented \<^verbatim>\<open>propagate\<close>: it behaves as the given one and appends the arguments of
  every call to a trace kept beside the state.
\<close>

definition traced ::
  "('x \<Rightarrow> 'adj \<Rightarrow> 'w \<Rightarrow> ('s, 'r) comp) \<Rightarrow> 'x \<Rightarrow> 'adj \<Rightarrow> 'w \<Rightarrow> (('x \<times> 'adj \<times> 'w) list \<times> 's, 'r) comp" where
  "traced p x a w ls =
     (case ls of (tr, s) \<Rightarrow>
        (case p x a w s of (r, s') \<Rightarrow> (r, (tr @ [(x, a, w)], s'))))"

text \<open>The stack of \<^verbatim>\<open>Dense\<close> layers on a single row.\<close>

fun Sequential_row :: "'a::semiring_0 Dense list \<Rightarrow> 'a list \<Rightarrow> 'a list" where
  "Sequential_row [] r = r"
| "Sequential_row (d # ds) r = Sequential_row ds (dense_row d r)"

section \<open>Example data\<close>

text \<open>
  A host framework that accepts positive unit counts only; a parameter configuration with a
  kernel of ones and a bias of ones; a layer with three channels; two nodes with two
  features; an adjacency with two entries of weight four; a stand-in for the inherited
  \<^verbatim>\<open>propagate\<close> that scales the features by the total edge weight and counts its calls in
  the state; two edges, the second a self-loop; an \<^verbatim>\<open>EdgeConv\<close> without bias and with
  one hidden layer, before and after \<^verbatim>\<open>build\<close>.
\<close>

definition units_positive :: "int \<Rightarrow> bool" where
  "units_positive n = (0 < n)"

definition ex_kwargs :: "real layer_kwargs" where
  "ex_kwargs =
     \<lparr>kernel_initializer = (\<lambda>i j. 1), bias_initializer = (\<lambda>j. 1),
      kernel_regularizer = None, bias_regularizer = None, activity_regularizer = None,
      kernel_constraint = None, bias_constraint = None, dtype = None\<rparr>"

definition ex_layer :: "int \<Rightarrow> real TAGConv" where
  "ex_layer k =
     \<lparr>aggregate = ''sum'', activation = id, use_bias = True, kwargs = ex_kwargs,
      channels = 3, K = k,
      linear = \<lparr>units = 3, dense_activation = id, dense_use_bias = True,
                dense_kwargs = ex_kwargs\<rparr>\<rparr>"

definition ex_x :: "real tensor" where
  "ex_x = [[1, 2], [3, 4]]"

definition ex_a :: "real SparseTensor" where
  "ex_a = \<lparr>sp_indices = [(0, 1), (1, 0)], sp_values = [4, 4], dense_shape = (2, 2)\<rparr>"

definition ex_propagate :: "real tensor \<Rightarrow> real SparseTensor \<Rightarrow> real list \<Rightarrow> (nat, real tensor) comp" where
  "ex_propagate x a w s = (Inr (map (map ((*) (sum_list w))) x), Suc s)"

definition ex_edges :: "edge list" where
  "ex_edges = [\<lparr>source = 0, target = 1\<rparr>, \<lparr>source = 1, target = 1\<rparr>]"

definition ex_edgeconv_unbuilt :: "real EdgeConv" where
  "ex_edgeconv_unbuilt =
     \<lparr>aggregate = ''sum'', activation = id, use_bias = False, kwargs = ex_kwargs,
      ec_channels = 3, mlp_hidden = [2], mlp_activation = id, mlp = None, built = False\<rparr>"

definition ex_mlp :: "real Dense list" where
  "ex_mlp =
     [\<lparr>units = 2, dense_activation = id, dense_use_bias = True, dense_kwargs = ex_kwargs\<rparr>,
      \<lparr>units = 3, dense_activation = id, dense_use_bias = False, dense_kwargs = ex_kwargs\<rparr>]"

definition ex_edgeconv :: "real EdgeConv" where
  "ex_edgeconv = ex_edgeconv_unbuilt\<lparr>mlp := Some ex_mlp, built := True\<rparr>"






section \<open>Auxiliary lemmas\<close>

subsection \<open>Concatenation and the hop loop\<close>

lemma concat_fold_rows:
  "list_all (\<lambda>u. length u = length t) ts \<Longrightarrow>
     length (foldl (\<lambda>acc u. map2 (@) acc u) t ts) = length t \<and>
     (\<forall>n<length t. foldl (\<lambda>acc u. map2 (@) acc u) t ts ! n = t ! n @ concat (map (\<lambda>u. u ! n) ts))"
proof (induction ts arbitrary: t)
  case Nil
  then show ?case by simp
next
  case (Cons u us)
  let ?t' = "map2 (@) t u"
  from Cons.prems have lu: "length u = length t" and rest: "list_all (\<lambda>v. length v = length t) us"
    by simp_all
  have lt': "length ?t' = length t" using lu by simp
  from rest lt' have "list_all (\<lambda>v. length v = length ?t') us" by simp
  from Cons.IH [OF this] lt' lu show ?case by simp
qed

lemma concatenate_Inr:
  "concatenate (t # ts) = Inr c \<Longrightarrow>
     list_all (\<lambda>u. length u = length t) ts \<and> length c = length t \<and>
     (\<forall>n<length t. c ! n = t ! n @ concat (map (\<lambda>u. u ! n) ts))"
  using concat_fold_rows [of t ts] by (auto split: if_splits)

lemma hop_loop_propagate_times:
  "hop_loop n body acc s =
     (case propagate_times n body s of
        (Inl e, s') \<Rightarrow> (Inl e, s')
      | (Inr rs, s') \<Rightarrow> (Inr (acc @ rs), s'))"
  by (induction n arbitrary: acc s) (auto split: prod.splits sum.splits)

lemma traced_apply:
  "traced p x a w (tr, s) = (fst (p x a w s), (tr @ [(x, a, w)], snd (p x a w s)))"
  by (simp add: traced_def split: prod.splits)

lemma hop_loop_traced:
  "hop_loop n (traced p x a w) acc (tr, s) = (Inr res, (tr', s')) \<Longrightarrow>
     tr' = tr @ replicate n (x, a, w) \<and> hop_loop n (p x a w) acc s = (Inr res, s')"
proof (induction n arbitrary: acc tr s)
  case 0
  then show ?case by simp
next
  case (Suc n)
  obtain r s1 where step: "p x a w s = (r, s1)" by (cases "p x a w s")
  show ?case
  proof (cases r)
    case (Inl e)
    with Suc.prems step show ?thesis by (simp add: traced_apply)
  next
    case (Inr v)
    with Suc.prems step
    have "hop_loop n (traced p x a w) (acc @ [v]) (tr @ [(x, a, w)], s1) = (Inr res, (tr', s'))"
      by (simp add: traced_apply)
    from Suc.IH [OF this] Inr step show ?thesis
      by (simp add: replicate_app_Cons_same)
  qed
qed

lemma hop_loop_traced_any:
  "hop_loop n (traced p x a w) acc (tr, s) = (r, (tr', s')) \<Longrightarrow>
     \<exists>m\<le>n. tr' = tr @ replicate m (x, a, w)"
proof (induction n arbitrary: acc tr s)
  case 0
  then show ?case by simp
next
  case (Suc n)
  obtain q s1 where step: "p x a w s = (q, s1)" by (cases "p x a w s")
  show ?case
  proof (cases q)
    case (Inl err)
    with Suc.prems step have "tr' = tr @ replicate 1 (x, a, w)" by (simp add: traced_apply)
    then show ?thesis by (intro exI [of _ 1]) simp
  next
    case (Inr v)
    with Suc.prems step
    have "hop_loop n (traced p x a w) (acc @ [v]) (tr @ [(x, a, w)], s1) = (r, (tr', s'))"
      by (simp add: traced_apply)
    from Suc.IH [OF this] obtain m where "m \<le> n" "tr' = (tr @ [(x, a, w)]) @ replicate m (x, a, w)"
      by blast
    then have "Suc m \<le> Suc n \<and> tr' = tr @ replicate (Suc m) (x, a, w)" by simp
    then show ?thesis by blast
  qed
qed

lemma hop_loop_shape:
  "hop_loop n body acc s = (Inr outp, s') \<Longrightarrow>
     length outp = length acc + n \<and> take (length acc) outp = acc"
proof (induction n arbitrary: acc s)
  case 0
  then show ?case by simp
next
  case (Suc n)
  obtain r s1 where step: "body s = (r, s1)" by (cases "body s")
  show ?case
  proof (cases r)
    case (Inl e)
    with Suc.prems step show ?thesis by simp
  next
    case (Inr v)
    with Suc.prems step have "hop_loop n body (acc @ [v]) s1 = (Inr outp, s')" by simp
    from Suc.IH [OF this] have l: "length outp = length acc + Suc n"
      and t: "take (Suc (length acc)) outp = acc @ [v]" by simp_all
    have "take (length acc) outp = take (length acc) (take (Suc (length acc)) outp)"
      by (simp add: min_def)
    with t l show ?thesis by simp
  qed
qed

lemma TAGConv_output_shape:
  assumes "TAGConv_output self propagate (x, a, e) s = (Inr outp, s')"
  shows "\<exists>blocks. outp = x # blocks \<and> length blocks = nat (K self)"
proof -
  from assms have "hop_loop (nat (K self)) (propagate x a (sp_values a)) [x] s = (Inr outp, s')"
    by (simp add: TAGConv_output_def)
  from hop_loop_shape [OF this] have l: "length outp = Suc (nat (K self))" and t: "take 1 outp = [x]"
    by simp_all
  then obtain y ys where "outp = y # ys" by (cases outp) auto
  with l t show ?thesis by simp
qed

lemma TAGConv_call_refines:
  "TAGConv_call self propagate (x, a, e) s = TAGConv_call_spec self propagate x a s"
proof -
  obtain r s1 where pt: "propagate_times (nat (K self)) (propagate x a (sp_values a)) s = (r, s1)"
    by (cases "propagate_times (nat (K self)) (propagate x a (sp_values a)) s")
  show ?thesis
  proof (cases r)
    case (Inl err)
    with pt show ?thesis
      by (simp add: TAGConv_call_def TAGConv_output_def TAGConv_call_spec_def
          hop_loop_propagate_times)
  next
    case (Inr blocks)
    with pt show ?thesis
      by (simp add: TAGConv_call_def TAGConv_output_def TAGConv_call_spec_def
          hop_loop_propagate_times)
  qed
qed

lemma TAGConv_call_trace:
  assumes "TAGConv_call self (traced propagate) (x, a, e) (tr, s) = (Inr out, (tr', s'))"
  shows "tr' = tr @ replicate (nat (K self)) (x, a, sp_values a)"
proof -
  from assms obtain outp where
    "hop_loop (nat (K self)) (traced propagate x a (sp_values a)) [x] (tr, s) = (Inr outp, (tr', s'))"
    by (auto simp: TAGConv_call_def TAGConv_output_def split: prod.splits sum.splits)
  from hop_loop_traced [OF this] show ?thesis by simp
qed

lemma TAGConv_call_state:
  "snd (TAGConv_call self propagate inputs s) = snd (TAGConv_output self propagate inputs s)"
  by (simp add: TAGConv_call_def split: prod.splits sum.splits)

lemma TAGConv_call_trace_any:
  assumes "TAGConv_call self (traced propagate) (x, a, e) (tr, s) = (r, (tr', s'))"
  shows "\<exists>m\<le>nat (K self). tr' = tr @ replicate m (x, a, sp_values a)"
proof -
  from assms TAGConv_call_state [of self "traced propagate" "(x, a, e)" "(tr, s)"]
  have "snd (hop_loop (nat (K self)) (traced propagate x a (sp_values a)) [x] (tr, s)) = (tr', s')"
    by (simp add: TAGConv_output_def)
  then obtain q where
    "hop_loop (nat (K self)) (traced propagate x a (sp_values a)) [x] (tr, s) = (q, (tr', s'))"
    by (cases "hop_loop (nat (K self)) (traced propagate x a (sp_values a)) [x] (tr, s)") simp
  from hop_loop_traced_any [OF this] show ?thesis .
qed

subsection \<open>Gathering and the layer stack\<close>

lemma Sequential_call_rows:
  "list_all (\<lambda>d. 0 \<le> units d) ds \<Longrightarrow> Sequential_call ds t = Inr (map (Sequential_row ds) t)"
  by (induction ds arbitrary: t) (simp_all add: Dense_call_def map_idI)

lemma get_targets_in_range:
  "list_all (\<lambda>e. target e < length x) es \<Longrightarrow> get_targets es x = Inr (map (\<lambda>e. x ! target e) es)"
  by (simp add: get_targets_def index_targets_def gather_def list_all_iff comp_def)

lemma get_sources_in_range:
  "list_all (\<lambda>e. source e < length x) es \<Longrightarrow> get_sources es x = Inr (map (\<lambda>e. x ! source e) es)"
  by (simp add: get_sources_def index_sources_def gather_def list_all_iff comp_def)

lemma edge_rows:
  "map2 (@) (map f es) (tensor_sub (map g es) (map f es)) =
     map (\<lambda>e. f e @ map2 (-) (g e) (f e)) es"
  by (induction es) (simp_all add: tensor_sub_def)

lemma EdgeConv_message_rows:
  assumes range: "list_all (\<lambda>e. source e < length x \<and> target e < length x) es"
    and mlp: "mlp self = Some layers"
    and units: "list_all (\<lambda>d. 0 \<le> units d) layers"
  shows "EdgeConv_message self es x =
           Inr (map (\<lambda>e. Sequential_row layers
                           (x ! target e @ map2 (-) (x ! source e) (x ! target e))) es)"
proof -
  from range have t: "get_targets es x = Inr (map (\<lambda>e. x ! target e) es)"
    by (intro get_targets_in_range) (simp add: list_all_iff)
  from range have s: "get_sources es x = Inr (map (\<lambda>e. x ! source e) es)"
    by (intro get_sources_in_range) (simp add: list_all_iff)
  have c: "concatenate [map (\<lambda>e. x ! target e) es,
             tensor_sub (map (\<lambda>e. x ! source e) es) (map (\<lambda>e. x ! target e) es)] =
           Inr (map (\<lambda>e. x ! target e @ map2 (-) (x ! source e) (x ! target e)) es)"
    by (simp add: edge_rows) (simp add: tensor_sub_def)
  show ?thesis
    by (simp add: EdgeConv_message_def t s mlp c Sequential_call_rows [OF units]
        del: concatenate.simps)
qed


lemma dense_layers_Inr:
  "dense_layers uv act kw cs = Inr ds \<Longrightarrow>
     map units ds = cs \<and> list_all dense_use_bias ds \<and>
     list_all (\<lambda>d. dense_activation d = act \<and> dense_kwargs d = kw) ds"
  by (induction cs arbitrary: ds) (auto simp: Dense_init_def split: sum.splits if_splits)

subsection \<open>The examples evaluated\<close>

lemma ex_init: "TAGConv_init units_positive 3 k ''sum'' id True ex_kwargs = Inr (ex_layer k)"
  by (simp add: TAGConv_init_def MessagePassing_init_def Dense_init_def units_positive_def
      ex_layer_def ex_kwargs_def)

lemma ex_run:
  "TAGConv_call (ex_layer 2) (traced ex_propagate) (ex_x, ex_a, None :: real tensor option) ([], 0) =
     (Inr [[52, 52, 52], [120, 120, 120]],
      ([(ex_x, ex_a, [4, 4]), (ex_x, ex_a, [4, 4])], 2))"
  by (simp add: TAGConv_call_def TAGConv_output_def ex_layer_def ex_kwargs_def ex_x_def ex_a_def
      ex_propagate_def traced_def Dense_call_def dense_row_def dense_unit_def numeral_2_eq_2
      Let_def numeral_3_eq_3)

lemma ex_call:
  "TAGConv_call (ex_layer 2) ex_propagate (ex_x, ex_a, None :: real tensor option) 0 =
     (Inr [[52, 52, 52], [120, 120, 120]], 2)"
  by (simp add: TAGConv_call_def TAGConv_output_def ex_layer_def ex_kwargs_def ex_x_def ex_a_def
      ex_propagate_def Dense_call_def dense_row_def dense_unit_def numeral_2_eq_2
      Let_def numeral_3_eq_3)

lemma ex_edge_build:
  "EdgeConv_build units_positive ex_edgeconv_unbuilt [[2, 2], [2, 2]] = Inr ex_edgeconv"
  by (simp add: EdgeConv_build_def Dense_init_def units_positive_def ex_edgeconv_def
      ex_edgeconv_unbuilt_def ex_mlp_def ex_kwargs_def Let_def)

lemma ex_range: "list_all (\<lambda>e. source e < length ex_x \<and> target e < length ex_x) ex_edges"
  by (simp add: ex_edges_def ex_x_def)

lemma ex_range_sources: "list_all (\<lambda>e. source e < length ex_x) ex_edges"
  by (simp add: ex_edges_def ex_x_def)

lemma ex_mlp_built: "mlp ex_edgeconv = Some ex_mlp"
  by (simp add: ex_edgeconv_def)

lemma ex_mlp_units: "list_all (\<lambda>d. 0 \<le> units d) ex_mlp"
  by (simp add: ex_mlp_def)

lemma ex_mlp_rows:
  "Sequential_row ex_mlp [3, 4, - 2, - 2] = [8, 8, 8]"
  "Sequential_row ex_mlp [3, 4, 0, 0] = [16, 16, 16]"
  by (simp_all add: ex_mlp_def ex_kwargs_def dense_row_def dense_unit_def
      numeral_2_eq_2 numeral_3_eq_3)

section \<open>TAGConv: the forward call\<close>

text \<open>
  Claim C1. \<^verbatim>\<open>TAGConv.call\<close> starts its output list with the input features \<open>x\<close>, calls
  \<^verbatim>\<open>propagate(x, a, edge_weight=edge_weight)\<close> once per hop, always on the original \<open>x\<close>
  and never on the result of an earlier hop, appends every result, concatenates the blocks
  along the feature axis and returns the projection of the concatenation by its \<^verbatim>\<open>Dense\<close>
  layer. The call equals the computation worded by the specification, for every
  \<^verbatim>\<open>propagate\<close>, every state and every input; and when the call returns, the trace of the
  instrumented \<^verbatim>\<open>propagate\<close> holds exactly \<open>K\<close> entries, each with the arguments
  \<open>(x, a, a.values)\<close>.
\<close>

theorem TAGConv_call_hops:
  "TAGConv_call self propagate (x, a, e) s = TAGConv_call_spec self propagate x a s \<and>
   (\<forall>out tr s'. TAGConv_call self (traced propagate) (x, a, e) ([], s) = (Inr out, (tr, s'))
      \<longrightarrow> tr = replicate (nat (K self)) (x, a, sp_values a))"
  using TAGConv_call_refines [of self propagate x a e s]
    TAGConv_call_trace [of self propagate x a e "[]" s]
  by auto

theorem TAGConv_call_hops_witness:
  "TAGConv_call (ex_layer 2) (traced ex_propagate)
     (ex_x, ex_a, None :: real tensor option) ([], 0) =
     (Inr [[52, 52, 52], [120, 120, 120]],
      (replicate (nat (K (ex_layer 2))) (ex_x, ex_a, sp_values ex_a), 2)) \<and>
   TAGConv_call_spec (ex_layer 2) ex_propagate ex_x ex_a 0 =
     (Inr [[52, 52, 52], [120, 120, 120]], 2)"
proof -
  have v: "sp_values ex_a = [4, 4]" "K (ex_layer 2) = 2" by (simp_all add: ex_a_def ex_layer_def)
  from TAGConv_call_hops [of "ex_layer 2" ex_propagate ex_x ex_a "None :: real tensor option" 0]
    ex_run ex_call
  show ?thesis by (simp add: v numeral_2_eq_2)
qed

text \<open>
  Claim C8. The first element of the list that \<^verbatim>\<open>TAGConv.call\<close> concatenates is the
  unmodified input: the list has \<open>K + 1\<close> blocks, its head is \<open>x\<close>, and every row of the
  concatenation starts with the row of \<open>x\<close> for the same node.
\<close>

theorem TAGConv_hop0_block:
  assumes "TAGConv_output self propagate (x, a, e) s = (Inr outp, s')"
  shows "outp \<noteq> [] \<and> hd outp = x \<and> length outp = nat (K self) + 1 \<and>
         (\<forall>c. concatenate outp = Inr c \<longrightarrow>
            length c = length x \<and> (\<forall>n<length x. take (length (x ! n)) (c ! n) = x ! n))"
proof -
  from TAGConv_output_shape [OF assms] obtain blocks where
    o: "outp = x # blocks" and l: "length blocks = nat (K self)" by blast
  have cat: "\<forall>c. concatenate outp = Inr c \<longrightarrow>
      length c = length x \<and> (\<forall>n<length x. take (length (x ! n)) (c ! n) = x ! n)"
  proof (intro allI impI)
    fix c
    assume "concatenate outp = Inr c"
    with o have "concatenate (x # blocks) = Inr c" by simp
    from concatenate_Inr [OF this]
    show "length c = length x \<and> (\<forall>n<length x. take (length (x ! n)) (c ! n) = x ! n)"
      by simp
  qed
  from o l have "outp \<noteq> [] \<and> hd outp = x \<and> length outp = nat (K self) + 1" by simp
  with cat show ?thesis by blast
qed

theorem TAGConv_hop0_block_witness:
  "TAGConv_output (ex_layer 2) ex_propagate (ex_x, ex_a, None :: real tensor option) 0 =
     (Inr [[[1, 2], [3, 4]], [[8, 16], [24, 32]], [[8, 16], [24, 32]]], 2) \<and>
   hd [[[1, 2], [3, 4]], [[8, 16], [24, 32]], [[8, 16], [24, 32 :: real]]] = ex_x \<and>
   concatenate [[[1, 2], [3, 4]], [[8, 16], [24, 32]], [[8, 16], [24, 32 :: real]]] =
     Inr [[1, 2, 8, 16, 8, 16], [3, 4, 24, 32, 24, 32]] \<and>
   take (length (ex_x ! 1)) ([[1, 2, 8, 16, 8, 16], [3, 4, 24, 32, 24, 32]] ! 1) = ex_x ! 1"
proof -
  have run: "TAGConv_output (ex_layer 2) ex_propagate (ex_x, ex_a, None :: real tensor option) 0 =
     (Inr [[[1, 2], [3, 4]], [[8, 16], [24, 32]], [[8, 16], [24, 32]]], 2)"
    by (simp add: TAGConv_output_def ex_layer_def ex_x_def ex_a_def ex_propagate_def
        numeral_2_eq_2 Let_def)
  have cat: "concatenate [[[1, 2], [3, 4]], [[8, 16], [24, 32]], [[8, 16], [24, 32 :: real]]] =
     Inr [[1, 2, 8, 16, 8, 16], [3, 4, 24, 32, 24, 32]]"
    by simp
  have n: "1 < length ex_x" by (simp add: ex_x_def)
  from TAGConv_hop0_block [OF run] cat n show ?thesis using run by blast
qed

text \<open>
  Claim C7. A layer constructed with \<open>channels\<close> output channels returns, whenever its call
  returns, one row per node and every row of width \<open>channels\<close>, whatever the hop count, the
  aggregation step and the width of the input are. The activation of the host framework
  keeps the length of a row.
\<close>

theorem TAGConv_output_width:
  assumes init: "TAGConv_init units_valid chs k agg act ub kw = Inr self"
    and act: "\<forall>r. length (act r) = length r"
    and call: "TAGConv_call self propagate (x, a, e) s = (Inr out, s')"
  shows "length out = length x \<and> (\<forall>row\<in>set out. int (length row) = chs)"
proof -
  from init have lin: "units (linear self) = chs" "dense_activation (linear self) = act"
    by (auto simp: TAGConv_init_def Dense_init_def split: sum.splits if_splits)
  from call obtain outp c where
    outp: "TAGConv_output self propagate (x, a, e) s = (Inr outp, s')"
    and c: "concatenate outp = Inr c"
    and d: "Dense_call (linear self) c = Inr out"
    by (auto simp: TAGConv_call_def split: prod.splits sum.splits)
  from TAGConv_output_shape [OF outp] obtain blocks where o: "outp = x # blocks" by blast
  from concatenate_Inr [of x blocks c] c o have lc: "length c = length x" by simp
  from d have nonneg: "0 \<le> units (linear self)" and out: "out = map (dense_row (linear self)) c"
    by (auto simp: Dense_call_def split: if_splits)
  from out lc have "length out = length x" by simp
  moreover have "int (length row) = chs" if "row \<in> set out" for row
    using that out lin act nonneg by (auto simp: dense_row_def)
  ultimately show ?thesis by blast
qed

theorem TAGConv_output_width_witness:
  "TAGConv_init units_positive 3 2 ''sum'' id True ex_kwargs = Inr (ex_layer 2) \<and>
   TAGConv_call (ex_layer 2) ex_propagate (ex_x, ex_a, None :: real tensor option) 0 =
     (Inr [[52, 52, 52], [120, 120, 120]], 2) \<and>
   length [[52, 52, 52], [120, 120, 120 :: real]] = length ex_x \<and>
   int (length ([[52, 52, 52], [120, 120, 120 :: real]] ! 0)) = 3 \<and>
   int (length ([[52, 52, 52], [120, 120, 120 :: real]] ! 1)) = 3"
proof -
  note init = ex_init [of 2]
  have act: "\<forall>r :: real list. length (id r) = length r" by simp
  note call = ex_call
  from TAGConv_output_width [OF init act call]
  have "length [[52, 52, 52], [120, 120, 120 :: real]] = length ex_x"
    and "\<forall>row\<in>set [[52, 52, 52], [120, 120, 120 :: real]]. int (length row) = 3"
    by blast+
  with init call show ?thesis by simp
qed

section \<open>TAGConv: message, construction, configuration, preprocessing\<close>

text \<open>
  Claim C5. For node features \<open>x\<close> and one weight per edge, \<^verbatim>\<open>TAGConv.message\<close> returns
  for every edge the feature vector of its source node, every entry multiplied by the weight
  of the edge.
\<close>

theorem TAGConv_message_scaled:
  assumes "list_all (\<lambda>e. source e < length x) es"
    and "length w = length es"
  shows "TAGConv_message es x (Some w) = Inr (map2 (\<lambda>c e. map ((*) c) (x ! source e)) w es)"
proof -
  have "map2 (\<lambda>c r. map ((*) c) r) w (map (\<lambda>e. x ! source e) es) =
        map2 (\<lambda>c e. map ((*) c) (x ! source e)) w es"
    by (simp add: zip_map2 split_def)
  with assms show ?thesis
    by (simp add: TAGConv_message_def get_sources_in_range scale_rows_def)
qed

theorem TAGConv_message_scaled_witness:
  "list_all (\<lambda>e. source e < length ex_x) ex_edges \<and> length [4, 5 :: real] = length ex_edges \<and>
   TAGConv_message ex_edges ex_x (Some [4, 5]) = Inr [[4, 8], [15, 20]]"
proof -
  have len: "length [4, 5 :: real] = length ex_edges" by (simp add: ex_edges_def)
  have "map2 (\<lambda>c e. map ((*) c) (ex_x ! source e)) [4, 5] ex_edges = [[4, 8], [15, 20]]"
    by (simp add: ex_edges_def ex_x_def)
  with TAGConv_message_scaled [OF ex_range_sources len] ex_range_sources len
  show ?thesis by simp
qed




text \<open>
  Claim C10. The \<^verbatim>\<open>config\<close> of a \<^verbatim>\<open>TAGConv\<close> has the single entry \<^verbatim>\<open>"channels"\<close>.
  Changing \<open>K\<close> does not change it, so no function recovers the hop count of a layer from
  its \<^verbatim>\<open>config\<close>.
\<close>

theorem TAGConv_config_omits_K:
  fixes self :: "'a TAGConv"
  shows "TAGConv_config self = [''channels'' \<mapsto> channels self] \<and>
   dom (TAGConv_config self) = {''channels''} \<and>
   TAGConv_config (self\<lparr>K := k\<rparr>) = TAGConv_config self \<and>
   \<not> (\<exists>f. \<forall>l :: 'a TAGConv. f (TAGConv_config l) = K l)"
proof -
  have "\<not> (\<exists>f. \<forall>l :: 'a TAGConv. f (TAGConv_config l) = K l)"
  proof
    assume "\<exists>f. \<forall>l :: 'a TAGConv. f (TAGConv_config l) = K l"
    then obtain f where f: "\<And>l :: 'a TAGConv. f (TAGConv_config l) = K l" by blast
    from f [of "self\<lparr>K := 1\<rparr>"] f [of "self\<lparr>K := 2\<rparr>"] show False
      by (simp add: TAGConv_config_def)
  qed
  then show ?thesis by (simp add: TAGConv_config_def)
qed

text \<open>
  Claim C6, as the program has it. \<^verbatim>\<open>TAGConv.preprocess\<close> returns the symmetric degree
  normalisation of the adjacency: the indices are kept and the value at \<open>(i, j)\<close> is divided
  by the square roots of the degrees of \<open>i\<close> and \<open>j\<close>. \<^verbatim>\<open>TAGConv.call\<close> does not apply
  it: every \<^verbatim>\<open>propagate\<close> call of every hop receives the adjacency of the inputs
  unchanged, with its own values as edge weights, so the normalisation is in effect only
  when the caller passes the preprocessed adjacency in.
\<close>

theorem TAGConv_preprocess_by_caller:
  fixes self :: "real TAGConv"
  shows "TAGConv_preprocess a = normalized_adjacency a \<and>
    sp_indices (TAGConv_preprocess a) = sp_indices a \<and>
    (\<forall>n. n < length (sp_indices a) \<and> n < length (sp_values a) \<longrightarrow>
       sp_values (TAGConv_preprocess a) ! n =
         sp_values a ! n / (sqrt (degree a (fst (sp_indices a ! n)))
                            * sqrt (degree a (snd (sp_indices a ! n))))) \<and>
    (\<forall>r tr s'. TAGConv_call self (traced propagate) (x, a, e) ([], s) = (r, (tr, s'))
       \<longrightarrow> (\<exists>m\<le>nat (K self). tr = replicate m (x, a, sp_values a)))"
proof -
  have "\<exists>m\<le>nat (K self). tr = replicate m (x, a, sp_values a)"
    if "TAGConv_call self (traced propagate) (x, a, e) ([], s) = (r, (tr, s'))" for r tr s'
    using TAGConv_call_trace_any [OF that] by simp
  moreover have "sp_values (TAGConv_preprocess a) ! n =
         sp_values a ! n / (sqrt (degree a (fst (sp_indices a ! n)))
                            * sqrt (degree a (snd (sp_indices a ! n))))"
    if "n < length (sp_indices a) \<and> n < length (sp_values a)" for n
    using that
    by (simp add: TAGConv_preprocess_def normalized_adjacency_def divide_inverse mult_ac)
  moreover have "TAGConv_preprocess a = normalized_adjacency a \<and>
      sp_indices (TAGConv_preprocess a) = sp_indices a"
    by (simp add: TAGConv_preprocess_def normalized_adjacency_def)
  ultimately show ?thesis by blast
qed

theorem TAGConv_preprocess_by_caller_witness:
  "sp_values (TAGConv_preprocess ex_a) ! 0 = 1 \<and>
   fst (snd (TAGConv_call (ex_layer 2) (traced ex_propagate)
               (ex_x, ex_a, None :: real tensor option) ([], 0)))
     = replicate 2 (ex_x, ex_a, sp_values ex_a)"
proof -
  note run = ex_run
  have len: "0 < length (sp_indices ex_a) \<and> 0 < length (sp_values ex_a)"
    by (simp add: ex_a_def)
  have deg: "degree ex_a (fst (sp_indices ex_a ! 0)) = 4" "degree ex_a (snd (sp_indices ex_a ! 0)) = 4"
    "sp_values ex_a ! 0 = 4" "sp_values ex_a = [4, 4]"
    by (simp_all add: degree_def ex_a_def)
  from TAGConv_preprocess_by_caller
    [of ex_a "ex_layer 2" ex_propagate ex_x "None :: real tensor option" 0]
  have v: "sp_values (TAGConv_preprocess ex_a) ! 0 =
         sp_values ex_a ! 0 / (sqrt (degree ex_a (fst (sp_indices ex_a ! 0)))
                            * sqrt (degree ex_a (snd (sp_indices ex_a ! 0))))"
    using len by blast
  from v have "sp_values (TAGConv_preprocess ex_a) ! 0 = 1" by (simp add: deg)
  moreover from run deg(4) have "fst (snd (TAGConv_call (ex_layer 2) (traced ex_propagate)
               (ex_x, ex_a, None :: real tensor option) ([], 0)))
     = replicate 2 (ex_x, ex_a, sp_values ex_a)"
    by (simp add: numeral_2_eq_2)
  ultimately show ?thesis by blast
qed

text \<open>
  Claim C6 as stated fails: on an adjacency with the values \<open>[4, 4]\<close>, whose normalisation
  has the values \<open>[1, 1]\<close>, both hops of a call hand the adjacency with the values
  \<open>[4, 4]\<close> to \<^verbatim>\<open>propagate\<close>.
\<close>

theorem TAGConv_preprocess_counterexample:
  "fst (snd (TAGConv_call (ex_layer 2) (traced ex_propagate)
               (ex_x, ex_a, None :: real tensor option) ([], 0)))
     = [(ex_x, ex_a, sp_values ex_a), (ex_x, ex_a, sp_values ex_a)] \<and>
   sp_values (TAGConv_preprocess ex_a) = [1, 1] \<and> sp_values ex_a = [4, 4]"
proof -
  have "sp_values ex_a = [4, 4]" by (simp add: ex_a_def)
  moreover have "sp_values (TAGConv_preprocess ex_a) = [1, 1]"
    by (simp add: TAGConv_preprocess_def normalized_adjacency_def degree_def ex_a_def)
  ultimately show ?thesis using ex_run by simp
qed

section \<open>EdgeConv\<close>

text \<open>
  Claim C2. For node features \<open>x\<close> whose edges are in range and a built layer,
  \<^verbatim>\<open>EdgeConv.message\<close> returns one vector per edge, in edge order: the layer stack applied
  to the features \<open>x_i\<close> of the target followed by the difference \<open>x_j - x_i\<close> of the
  features of source and target.
\<close>

theorem EdgeConv_message_per_edge:
  assumes "list_all (\<lambda>e. source e < length x \<and> target e < length x) es"
    and "mlp self = Some layers"
    and "list_all (\<lambda>d. 0 \<le> units d) layers"
  shows "EdgeConv_message self es x =
           Inr (map (\<lambda>e. Sequential_row layers
                           (x ! target e @ map2 (-) (x ! source e) (x ! target e))) es)"
  using assms by (rule EdgeConv_message_rows)

theorem EdgeConv_message_per_edge_witness:
  "list_all (\<lambda>e. source e < length ex_x \<and> target e < length ex_x) ex_edges \<and>
   mlp ex_edgeconv = Some ex_mlp \<and> list_all (\<lambda>d. 0 \<le> units d) ex_mlp \<and>
   EdgeConv_message ex_edgeconv ex_edges ex_x = Inr [[8, 8, 8], [16, 16, 16]]"
proof -
  have "map (\<lambda>e. Sequential_row ex_mlp
                   (ex_x ! target e @ map2 (-) (ex_x ! source e) (ex_x ! target e))) ex_edges =
        [Sequential_row ex_mlp [3, 4, - 2, - 2], Sequential_row ex_mlp [3, 4, 0, 0]]"
    by (simp add: ex_edges_def ex_x_def)
  with EdgeConv_message_per_edge [OF ex_range ex_mlp_built ex_mlp_units]
    ex_range ex_mlp_built ex_mlp_units
  show ?thesis by (simp add: ex_mlp_rows)
qed




text \<open>
  Claim C9. After \<^verbatim>\<open>EdgeConv.build\<close> the stack has one layer per hidden width, each with
  a bias whatever the \<^verbatim>\<open>use_bias\<close> of the layer is, and a last layer with \<open>channels\<close>
  units that has a bias exactly when the layer was configured with one.
\<close>

theorem EdgeConv_build_bias:
  assumes "EdgeConv_build units_valid self input_shape = Inr self'"
  shows "\<exists>hs d. mlp self' = Some (hs @ [d]) \<and>
           map units hs = mlp_hidden self \<and> list_all dense_use_bias hs \<and>
           units d = ec_channels self \<and> dense_use_bias d = use_bias self"
proof -
  from assms obtain hs d where
    hs: "dense_layers units_valid (mlp_activation self)
           ((kwargs self)\<lparr>activity_regularizer := None\<rparr>) (mlp_hidden self) = Inr hs"
    and d: "Dense_init units_valid (ec_channels self) (activation self) (Some (use_bias self))
              ((kwargs self)\<lparr>activity_regularizer := None\<rparr>) = Inr d"
    and m: "mlp self' = Some (hs @ [d])"
    by (auto simp: EdgeConv_build_def Let_def split: if_splits sum.splits)
  from d have "units d = ec_channels self \<and> dense_use_bias d = use_bias self"
    by (auto simp: Dense_init_def split: if_splits)
  with dense_layers_Inr [OF hs] m show ?thesis by blast
qed

theorem EdgeConv_build_bias_witness:
  "EdgeConv_build units_positive ex_edgeconv_unbuilt [[2, 2], [2, 2]] = Inr ex_edgeconv \<and>
   use_bias ex_edgeconv_unbuilt = False \<and>
   (\<exists>hs d. mlp ex_edgeconv = Some (hs @ [d]) \<and> map units hs = [2] \<and>
       list_all dense_use_bias hs \<and> units d = 3 \<and> dense_use_bias d = False)"
proof -
  note b = ex_edge_build
  have f: "use_bias ex_edgeconv_unbuilt = False" "mlp_hidden ex_edgeconv_unbuilt = [2]"
    "ec_channels ex_edgeconv_unbuilt = 3"
    by (simp_all add: ex_edgeconv_unbuilt_def)
  from EdgeConv_build_bias [OF b] b f show ?thesis by simp
qed

end
